theory Spec2Isabelle
  imports Main
begin

section \<open>The CDK stack of maas-eks-cdk\<close>

text \<open>
  The only program logic of the repository is the constructor of
  \<^verbatim>\<open>CdkProjectsStack\<close> (lib/cdk-projects-stack.ts) and the two variants of
  bin/cdk-projects.ts that call it. The constructor is declarative glue: it reads three
  optional properties, fills in a blueprint builder of the EKS Blueprints library, asks the
  library to build it, and may add an EC2 instance with its security group and role.

  The embedding follows the constructor statement by statement. Every call into
  aws-cdk-lib or EKS Blueprints is recorded as data (which construct was requested, with
  which properties); what the libraries do with the request at synthesis or deployment is
  outside the repository and is not modelled. A library call may throw; which calls throw
  is a parameter of the constructor, and an exception ends it.

  The repository contains no plan engine, executor, state store, specification hash or
  specification validator; nothing is defined here for them.
\<close>

subsection \<open>Values of aws-cdk-lib used by the stack\<close>

datatype KubernetesVersion = V1_24 | V1_25 | V1_26

datatype EndpointAccess = PUBLIC_ACCESS | PRIVATE | PUBLIC_AND_PRIVATE

datatype InstanceClass = T2 | T3 | M5

datatype InstanceSize = SMALL | MEDIUM | LARGE

text \<open>\<^verbatim>\<open>ec2.InstanceType.of(instanceClass, instanceSize)\<close>\<close>

datatype InstanceType = InstanceType_of InstanceClass InstanceSize

datatype SubnetType = PRIVATE_ISOLATED | PRIVATE_WITH_EGRESS | PUBLIC_SUBNET

text \<open>\<^verbatim>\<open>ec2.Vpc.fromLookup(this, id, { vpcId })\<close>: the construct id and the VPC id.\<close>

datatype IVpc = Vpc_fromLookup string string

datatype Principal = ServicePrincipal string

datatype ManagedPolicy = fromAwsManagedPolicyName string

datatype MachineImage = latestAmazonLinux2023

record SecurityGroupProps =
  sg_vpc :: IVpc
  sg_description :: string
  allowAllOutbound :: bool

record RoleProps =
  assumedBy :: Principal
  role_description :: string
  managedPolicies :: "ManagedPolicy list"

text \<open>
  Objects are passed by reference in the source; the instance refers to its security group
  and its role by their construct ids.
\<close>

record InstanceProps =
  vpc :: IVpc
  vpcSubnets :: SubnetType
  securityGroup :: string
  role :: string
  instanceType :: InstanceType
  machineImage :: MachineImage

text \<open>The constructs the constructor creates with scope \<^verbatim>\<open>this\<close>.\<close>

datatype Construct =
    VpcLookup string string
  | SecurityGroup string SecurityGroupProps
  | Role string RoleProps
  | Instance string InstanceProps

fun construct_id :: "Construct \<Rightarrow> string" where
  "construct_id (VpcLookup i _) = i"
| "construct_id (SecurityGroup i _) = i"
| "construct_id (Role i _) = i"
| "construct_id (Instance i _) = i"

fun is_SecurityGroup :: "Construct \<Rightarrow> bool" where
  "is_SecurityGroup (SecurityGroup _ _) = True"
| "is_SecurityGroup _ = False"

fun is_Role :: "Construct \<Rightarrow> bool" where
  "is_Role (Role _ _) = True"
| "is_Role _ = False"

fun is_Instance :: "Construct \<Rightarrow> bool" where
  "is_Instance (Instance _ _) = True"
| "is_Instance _ = False"

subsection \<open>Values of EKS Blueprints used by the stack\<close>

text \<open>One entry of \<^verbatim>\<open>managedNodeGroups\<close>; sizes are JavaScript numbers, here integers.\<close>

record ManagedNodeGroup =
  id_mng :: string
  instanceTypes :: "InstanceType list"
  minSize :: int
  maxSize :: int
  desiredSize :: int
  nodeGroupSubnets :: SubnetType

record GenericClusterProviderProps =
  version :: KubernetesVersion
  endpointAccess :: EndpointAccess
  managedNodeGroups :: "ManagedNodeGroup list"

datatype ClusterProvider = GenericClusterProvider GenericClusterProviderProps

datatype AddOn =
    CoreDnsAddOn
  | KubeProxyAddOn
  | VpcCniAddOn
  | MetricsServerAddOn
  | ClusterAutoScalerAddOn
  | AwsLoadBalancerControllerAddOn
  | ContainerInsightsAddOn
  | ArgoCDAddOn
  | CalicoAddOn

datatype Team = PlatformTeam string | ApplicationTeam string

datatype GlobalResources = Vpc | HostedZone | Certificate

datatype ResourceProvider = VpcProvider string

text \<open>
  The state of a \<^verbatim>\<open>BlueprintBuilder\<close>. Each builder method stores its argument;
  \<^verbatim>\<open>addOns\<close> and \<^verbatim>\<open>teams\<close> take any number of arguments and append them.
\<close>

record BlueprintBuilder =
  bp_account :: "string option"
  bp_region :: "string option"
  bp_clusterProvider :: "ClusterProvider option"
  bp_addOns :: "AddOn list"
  bp_teams :: "Team list"
  bp_resourceProviders :: "(GlobalResources \<times> ResourceProvider) list"

definition builder :: BlueprintBuilder where
  "builder = \<lparr>bp_account = None, bp_region = None, bp_clusterProvider = None,
     bp_addOns = [], bp_teams = [], bp_resourceProviders = []\<rparr>"

definition builder_account :: "string option \<Rightarrow> BlueprintBuilder \<Rightarrow> BlueprintBuilder" where
  "builder_account a b = b\<lparr>bp_account := a\<rparr>"

definition builder_region :: "string option \<Rightarrow> BlueprintBuilder \<Rightarrow> BlueprintBuilder" where
  "builder_region r b = b\<lparr>bp_region := r\<rparr>"

definition builder_clusterProvider :: "ClusterProvider \<Rightarrow> BlueprintBuilder \<Rightarrow> BlueprintBuilder" where
  "builder_clusterProvider c b = b\<lparr>bp_clusterProvider := Some c\<rparr>"

definition builder_addOns :: "AddOn list \<Rightarrow> BlueprintBuilder \<Rightarrow> BlueprintBuilder" where
  "builder_addOns xs b = b\<lparr>bp_addOns := bp_addOns b @ xs\<rparr>"

definition builder_teams :: "Team list \<Rightarrow> BlueprintBuilder \<Rightarrow> BlueprintBuilder" where
  "builder_teams ts b = b\<lparr>bp_teams := bp_teams b @ ts\<rparr>"

definition builder_resourceProvider ::
    "GlobalResources \<Rightarrow> ResourceProvider \<Rightarrow> BlueprintBuilder \<Rightarrow> BlueprintBuilder" where
  "builder_resourceProvider k p b =
     b\<lparr>bp_resourceProviders := bp_resourceProviders b @ [(k, p)]\<rparr>"

subsection \<open>The properties of the stack\<close>

text \<open>\<^verbatim>\<open>props.env\<close>: both fields are optional in \<^verbatim>\<open>cdk.Environment\<close>.\<close>

record Environment =
  account :: "string option"
  region :: "string option"

text \<open>
  \<^verbatim>\<open>EksStackProps\<close>: the two fields the interface adds, and the one field of
  \<^verbatim>\<open>cdk.StackProps\<close> that the constructor reads. An optional field is an
  \<open>option\<close>; \<open>None\<close> is \<^verbatim>\<open>undefined\<close>.
\<close>

record EksStackProps =
  env :: "Environment option"
  vpcId :: "string option"
  createNewVpc :: "bool option"

text \<open>Optional chaining on the optional parameter \<^verbatim>\<open>props\<close>.\<close>

definition props_vpcId :: "EksStackProps option \<Rightarrow> string option" where
  "props_vpcId props = (case props of None \<Rightarrow> None | Some p \<Rightarrow> vpcId p)"

definition props_createNewVpc :: "EksStackProps option \<Rightarrow> bool option" where
  "props_createNewVpc props = (case props of None \<Rightarrow> None | Some p \<Rightarrow> createNewVpc p)"

definition props_env_account :: "EksStackProps option \<Rightarrow> string option" where
  "props_env_account props =
     (case props of None \<Rightarrow> None
      | Some p \<Rightarrow> (case env p of None \<Rightarrow> None | Some e \<Rightarrow> account e))"

definition props_env_region :: "EksStackProps option \<Rightarrow> string option" where
  "props_env_region props =
     (case props of None \<Rightarrow> None
      | Some p \<Rightarrow> (case env p of None \<Rightarrow> None | Some e \<Rightarrow> region e))"

text \<open>
  JavaScript truthiness of a value of type \<^verbatim>\<open>string | undefined\<close>, as tested by
  \<^verbatim>\<open>if (props?.vpcId)\<close>: \<^verbatim>\<open>undefined\<close> and the empty string are falsy.
\<close>

definition truthy :: "string option \<Rightarrow> bool" where
  "truthy v = (case v of None \<Rightarrow> False | Some s \<Rightarrow> s \<noteq> [])"

subsection \<open>The effects of the constructor\<close>

text \<open>
  What the constructor leaves behind: the tags put on the stack, the lines written with
  \<^verbatim>\<open>console.log\<close>, the constructs created in the stack, and the blueprints
  built in the enclosing scope, each under its stack id.
\<close>

record CdkState =
  tags :: "(string \<times> string) list"
  console :: "string list"
  constructs :: "Construct list"
  built :: "(string \<times> BlueprintBuilder) list"


definition initial :: CdkState where
  "initial = \<lparr>tags = [], console = [], constructs = [], built = []\<rparr>"

definition Tags_add :: "string \<Rightarrow> string \<Rightarrow> CdkState \<Rightarrow> CdkState" where
  "Tags_add k v st = st\<lparr>tags := tags st @ [(k, v)]\<rparr>"

definition console_log :: "string \<Rightarrow> CdkState \<Rightarrow> CdkState" where
  "console_log s st = st\<lparr>console := console st @ [s]\<rparr>"

definition new_construct :: "Construct \<Rightarrow> CdkState \<Rightarrow> CdkState" where
  "new_construct c st = st\<lparr>constructs := constructs st @ [c]\<rparr>"

text \<open>\<^verbatim>\<open>role.addManagedPolicy(policy)\<close> on the role with construct id \<open>rid\<close>.\<close>

fun addManagedPolicy_construct :: "string \<Rightarrow> ManagedPolicy \<Rightarrow> Construct \<Rightarrow> Construct" where
  "addManagedPolicy_construct rid p (Role i rp) =
     (if i = rid then Role i (rp\<lparr>managedPolicies := managedPolicies rp @ [p]\<rparr>) else Role i rp)"
| "addManagedPolicy_construct rid p c = c"

definition addManagedPolicy :: "string \<Rightarrow> ManagedPolicy \<Rightarrow> CdkState \<Rightarrow> CdkState" where
  "addManagedPolicy rid p st =
     st\<lparr>constructs := map (addManagedPolicy_construct rid p) (constructs st)\<rparr>"

definition builder_build :: "string \<Rightarrow> BlueprintBuilder \<Rightarrow> CdkState \<Rightarrow> CdkState" where
  "builder_build stackId b st = st\<lparr>built := built st @ [(stackId, b)]\<rparr>"

subsection \<open>Library calls that may throw\<close>

text \<open>
  The calls of the constructor into aws-cdk-lib and EKS Blueprints whose outcome depends on
  the arguments of the constructor or on the surroundings (the enclosing scope, the cached
  context):
  \<^item> \<^verbatim>\<open>super(scope, id, props)\<close>, with the id and the properties;
  \<^item> \<^verbatim>\<open>ec2.Vpc.fromLookup(this, id, { vpcId })\<close>, with the account and the region of
    the stack \<^verbatim>\<open>this\<close>, the construct id and the VPC id;
  \<^item> \<^verbatim>\<open>blueprint.build(scope, stackId)\<close>, with the stack id and the builder;
  \<^item> \<^verbatim>\<open>new ec2.SecurityGroup\<close>, \<^verbatim>\<open>new iam.Role\<close> and
    \<^verbatim>\<open>new ec2.Instance\<close>, with the construct.
  The remaining calls take constants or only store their argument.
\<close>

datatype Call =
    Call_super string "EksStackProps option"
  | Call_fromLookup "string option" "string option" string string
  | Call_build string BlueprintBuilder
  | Call_new Construct

text \<open>
  An exception leaves the constructor at once. The error keeps the call that threw and the
  effects made before it.
\<close>

datatype error = Thrown Call CdkState

text \<open>
  The libraries are not part of the repository: their behaviour is a parameter of the
  constructor, a predicate that holds of the calls that throw.
\<close>

type_synonym Library = "Call \<Rightarrow> bool"

text \<open>A library call \<open>c\<close> with effect \<open>eff\<close> on the state when it returns.\<close>

definition call :: "Library \<Rightarrow> Call \<Rightarrow> (CdkState \<Rightarrow> CdkState) \<Rightarrow> CdkState \<Rightarrow> error + CdkState" where
  "call lib c eff st = (if lib c then Inl (Thrown c st) else Inr (eff st))"

text \<open>
  The failures of the two libraries that depend on the arguments of the constructor, for a
  stack created directly in a new \<^verbatim>\<open>cdk.App\<close> as both callers do:
  \<^item> the stack constructor rejects an empty id and a stack name that does not match
    \<^verbatim>\<open>/^[A-Za-z][A-Za-z0-9-]*$/\<close>;
  \<^item> \<^verbatim>\<open>Vpc.fromLookup\<close> rejects a stack whose account or region is undefined;
  \<^item> the blueprint rejects an id of more than 63 characters.
\<close>

definition letters :: string where
  "letters = ''ABCDEFGHIJKLMNOPQRSTUVWXYZabcdefghijklmnopqrstuvwxyz''"

definition digits :: string where
  "digits = ''0123456789''"

definition valid_stack_name :: "string \<Rightarrow> bool" where
  "valid_stack_name s =
     (case s of
        [] \<Rightarrow> False
      | c # cs \<Rightarrow> c \<in> set letters \<and> list_all (\<lambda>d. d \<in> set (letters @ digits @ ''-'')) cs)"

fun aws_cdk :: Library where
  "aws_cdk (Call_super i props) = (\<not> valid_stack_name i)"
| "aws_cdk (Call_fromLookup acc reg cid v) = (acc = None \<or> reg = None)"
| "aws_cdk (Call_build stackId b) = (63 < length stackId)"
| "aws_cdk (Call_new c) = False"

subsection \<open>The constructor of CdkProjectsStack\<close>

text \<open>
  The VPC configuration:
  \<^verbatim>\<open>
  if (props?.vpcId) {
    console.log(`Using existing VPC: ${props.vpcId}`);
    vpcProvider = new blueprints.VpcProvider(props.vpcId);
    vpcForEc2 = ec2.Vpc.fromLookup(this, 'ExistingVpcForEc2', { vpcId: props.vpcId });
  } else if (props?.createNewVpc !== false) {
    console.log('Creating new VPC for EKS cluster');
  }
  \<close>
  The result is the pair of the two variables and the new state, or the error of the
  lookup. The account and the region of \<^verbatim>\<open>this\<close> are those of
  \<^verbatim>\<open>props.env\<close>, handed to the stack by \<^verbatim>\<open>super\<close>.
\<close>

definition vpc_configuration ::
    "Library \<Rightarrow> EksStackProps option \<Rightarrow> CdkState
       \<Rightarrow> error + ((ResourceProvider option \<times> IVpc option) \<times> CdkState)" where
  "vpc_configuration lib props st =
     (if truthy (props_vpcId props) then
        (case props_vpcId props of
           Some v \<Rightarrow>
             (case call lib
                     (Call_fromLookup (props_env_account props) (props_env_region props)
                        ''ExistingVpcForEc2'' v)
                     (new_construct (VpcLookup ''ExistingVpcForEc2'' v))
                     (console_log (''Using existing VPC: '' @ v) st) of
                Inl e \<Rightarrow> Inl e
              | Inr st' \<Rightarrow>
                  Inr ((Some (VpcProvider v), Some (Vpc_fromLookup ''ExistingVpcForEc2'' v)),
                       st'))
         | None \<Rightarrow> Inr ((None, None), st))
      else if props_createNewVpc props \<noteq> Some False then
        Inr ((None, None), console_log ''Creating new VPC for EKS cluster'' st)
      else Inr ((None, None), st))"

text \<open>The one managed node group of the cluster provider.\<close>

definition mng1 :: ManagedNodeGroup where
  "mng1 = \<lparr>id_mng = ''mng1'',
            instanceTypes = [InstanceType_of T3 MEDIUM],
            minSize = 1,
            maxSize = 5,
            desiredSize = 2,
            nodeGroupSubnets = PRIVATE_WITH_EGRESS\<rparr>"

definition cluster_provider :: ClusterProvider where
  "cluster_provider = GenericClusterProvider
     \<lparr>version = V1_25, endpointAccess = PRIVATE, managedNodeGroups = [mng1]\<rparr>"

text \<open>
  The builder chain
  \<^verbatim>\<open>EksBlueprint.builder().account(..).region(..).clusterProvider(..).addOns(..).teams()\<close>
  followed by
  \<^verbatim>\<open>if (vpcProvider) { blueprint.resourceProvider(GlobalResources.Vpc, vpcProvider); }\<close>
\<close>

definition blueprint :: "EksStackProps option \<Rightarrow> ResourceProvider option \<Rightarrow> BlueprintBuilder" where
  "blueprint props vpcProvider =
     (let b = builder_teams []
                (builder_addOns
                   [CoreDnsAddOn, KubeProxyAddOn, VpcCniAddOn,
                    MetricsServerAddOn, ClusterAutoScalerAddOn,
                    AwsLoadBalancerControllerAddOn, ContainerInsightsAddOn]
                   (builder_clusterProvider cluster_provider
                      (builder_region (props_env_region props)
                         (builder_account (props_env_account props) builder))))
      in case vpcProvider of
           Some p \<Rightarrow> builder_resourceProvider Vpc p b
         | None \<Rightarrow> b)"

text \<open>
  The block guarded by \<^verbatim>\<open>if (vpcForEc2)\<close>: the security group, the role with its
  managed policy, and the instance, in the order of the source.
\<close>

definition EKSInstanceSg :: "IVpc \<Rightarrow> Construct" where
  "EKSInstanceSg v =
     SecurityGroup ''EKSInstanceSg''
       \<lparr>sg_vpc = v,
        sg_description = ''Security group for private EC2 instance in EKS VPC'',
        allowAllOutbound = True\<rparr>"

definition EKSInstanceRole :: Construct where
  "EKSInstanceRole =
     Role ''EKSInstanceRole''
       \<lparr>assumedBy = ServicePrincipal ''ec2.amazonaws.com'',
        role_description = ''Role for private EC2 instance with SSM access'',
        managedPolicies = []\<rparr>"

definition EKSInstance :: "IVpc \<Rightarrow> Construct" where
  "EKSInstance v =
     Instance ''EKSInstance''
       \<lparr>vpc = v,
        vpcSubnets = PRIVATE_WITH_EGRESS,
        securityGroup = ''EKSInstanceSg'',
        role = ''EKSInstanceRole'',
        instanceType = InstanceType_of T3 MEDIUM,
        machineImage = latestAmazonLinux2023\<rparr>"

definition private_instance :: "Library \<Rightarrow> IVpc \<Rightarrow> CdkState \<Rightarrow> error + CdkState" where
  "private_instance lib v st =
     (case call lib (Call_new (EKSInstanceSg v)) (new_construct (EKSInstanceSg v)) st of
        Inl e \<Rightarrow> Inl e
      | Inr st1 \<Rightarrow>
          (case call lib (Call_new EKSInstanceRole) (new_construct EKSInstanceRole) st1 of
             Inl e \<Rightarrow> Inl e
           | Inr st2 \<Rightarrow>
               (let st3 = addManagedPolicy ''EKSInstanceRole''
                            (fromAwsManagedPolicyName ''AmazonSSMManagedInstanceCore'') st2
                in call lib (Call_new (EKSInstance v)) (new_construct (EKSInstance v)) st3)))"

text \<open>
  \<^verbatim>\<open>constructor(scope, id, props?)\<close>. The parameter \<^verbatim>\<open>scope\<close> only receives the
  built blueprint, which is recorded in the field \<open>built\<close>. The statements run in the
  order of the source, and the first call that throws ends the constructor.
\<close>

definition CdkProjectsStack :: "Library \<Rightarrow> string \<Rightarrow> EksStackProps option \<Rightarrow> error + CdkState" where
  "CdkProjectsStack lib id' props =
     (case call lib (Call_super id' props) (Tags_add ''Name'' ''Maas'') initial of
        Inl e \<Rightarrow> Inl e
      | Inr st0 \<Rightarrow>
          (case vpc_configuration lib props st0 of
             Inl e \<Rightarrow> Inl e
           | Inr ((vpcProvider, vpcForEc2), st1) \<Rightarrow>
               (let b = blueprint props vpcProvider;
                    stackId = id' @ ''-eks-cluster''
                in case call lib (Call_build stackId b) (builder_build stackId b) st1 of
                     Inl e \<Rightarrow> Inl e
                   | Inr st2 \<Rightarrow>
                       (case vpcForEc2 of
                          Some v \<Rightarrow> private_instance lib v st2
                        | None \<Rightarrow> Inr st2))))"

text \<open>The two callers: bin/cdk-projects.ts with a fixed VPC id, and with the environment.\<close>

definition cdk_projects_fixed :: "Library \<Rightarrow> error + CdkState" where
  "cdk_projects_fixed lib =
     CdkProjectsStack lib ''CdkProjectsStack''
       (Some \<lparr>env = Some \<lparr>account = Some ''471727841202'', region = Some ''us-east-1''\<rparr>,
              vpcId = Some ''vpc-00e9c2080fc3a870f'',
              createNewVpc = None\<rparr>)"

text \<open>
  \<^verbatim>\<open>process.env.ACC_ID\<close> and \<^verbatim>\<open>process.env.VPC_ID\<close> are
  \<^verbatim>\<open>undefined\<close> when the variable is unset and a string, possibly empty, when set.
\<close>

definition cdk_projects_env :: "Library \<Rightarrow> string option \<Rightarrow> string option \<Rightarrow> error + CdkState" where
  "cdk_projects_env lib ACC_ID VPC_ID =
     CdkProjectsStack lib ''CdkProjectsStack''
       (Some \<lparr>env = Some \<lparr>account = ACC_ID, region = Some ''us-east-1''\<rparr>,
              vpcId = VPC_ID,
              createNewVpc = None\<rparr>)"

subsection \<open>Observations on the result\<close>

text \<open>Whether the constructor returned, and the effects it made, returning or not.\<close>

fun returned :: "error + CdkState \<Rightarrow> bool" where
  "returned (Inr st) = True"
| "returned (Inl e) = False"

fun effects :: "error + CdkState \<Rightarrow> CdkState" where
  "effects (Inr st) = st"
| "effects (Inl (Thrown c st)) = st"

definition has_SecurityGroup :: "CdkState \<Rightarrow> bool" where
  "has_SecurityGroup st = list_ex is_SecurityGroup (constructs st)"

definition has_Role :: "CdkState \<Rightarrow> bool" where
  "has_Role st = list_ex is_Role (constructs st)"

definition has_Instance :: "CdkState \<Rightarrow> bool" where
  "has_Instance st = list_ex is_Instance (constructs st)"

text \<open>The configuration of the cluster: provider, add-ons and teams of a blueprint.\<close>

definition cluster_configuration ::
    "BlueprintBuilder \<Rightarrow> ClusterProvider option \<times> AddOn list \<times> Team list" where
  "cluster_configuration b = (bp_clusterProvider b, bp_addOns b, bp_teams b)"

text \<open>The managed node groups of every blueprint the constructor builds.\<close>

definition node_groups :: "CdkState \<Rightarrow> ManagedNodeGroup list" where
  "node_groups st =
     concat (map (\<lambda>(i, b). case bp_clusterProvider b of
                              None \<Rightarrow> []
                            | Some (GenericClusterProvider cp) \<Rightarrow> managedNodeGroups cp)
                 (built st))"

text \<open>
  The result without the choice of VPC: the tags, the built blueprints with their resource
  providers erased, and the constructs of the stack other than the VPC lookup and the
  instance with its security group and role. The lines of \<^verbatim>\<open>console.log\<close> are
  diagnostics and are left out.
\<close>

definition cluster_part ::
    "CdkState \<Rightarrow> (string \<times> string) list \<times> (string \<times> BlueprintBuilder) list \<times> Construct list" where
  "cluster_part st =
     (tags st,
      map (\<lambda>(i, b). (i, b\<lparr>bp_resourceProviders := []\<rparr>)) (built st),
      filter (\<lambda>c. construct_id c \<notin> set [''ExistingVpcForEc2'', ''EKSInstanceSg'',
                                            ''EKSInstanceRole'', ''EKSInstance''])
             (constructs st))"

text \<open>The VPC provider the constructor registers, and the constructs it creates, if it returns.\<close>

definition vpc_provider_of :: "EksStackProps option \<Rightarrow> ResourceProvider option" where
  "vpc_provider_of props =
     (case props_vpcId props of
        None \<Rightarrow> None
      | Some v \<Rightarrow> if v = [] then None else Some (VpcProvider v))"

definition constructs_of :: "EksStackProps option \<Rightarrow> Construct list" where
  "constructs_of props =
     (case props_vpcId props of
        None \<Rightarrow> []
      | Some v \<Rightarrow>
          if v = [] then []
          else
            [VpcLookup ''ExistingVpcForEc2'' v,
             SecurityGroup ''EKSInstanceSg''
               \<lparr>sg_vpc = Vpc_fromLookup ''ExistingVpcForEc2'' v,
                sg_description = ''Security group for private EC2 instance in EKS VPC'',
                allowAllOutbound = True\<rparr>,
             Role ''EKSInstanceRole''
               \<lparr>assumedBy = ServicePrincipal ''ec2.amazonaws.com'',
                role_description = ''Role for private EC2 instance with SSM access'',
                managedPolicies = [fromAwsManagedPolicyName ''AmazonSSMManagedInstanceCore'']\<rparr>,
             Instance ''EKSInstance''
               \<lparr>vpc = Vpc_fromLookup ''ExistingVpcForEc2'' v,
                vpcSubnets = PRIVATE_WITH_EGRESS,
                securityGroup = ''EKSInstanceSg'',
                role = ''EKSInstanceRole'',
                instanceType = InstanceType_of T3 MEDIUM,
                machineImage = latestAmazonLinux2023\<rparr>])"

section \<open>Properties\<close>

subsection \<open>What the constructor computes\<close>

lemma blueprint_eq:
  "blueprint props vp =
     \<lparr>bp_account = props_env_account props,
      bp_region = props_env_region props,
      bp_clusterProvider = Some cluster_provider,
      bp_addOns = [CoreDnsAddOn, KubeProxyAddOn, VpcCniAddOn,
                   MetricsServerAddOn, ClusterAutoScalerAddOn,
                   AwsLoadBalancerControllerAddOn, ContainerInsightsAddOn],
      bp_teams = [],
      bp_resourceProviders = (case vp of None \<Rightarrow> [] | Some p \<Rightarrow> [(Vpc, p)])\<rparr>"
  by (simp add: blueprint_def builder_def builder_account_def builder_region_def
      builder_clusterProvider_def builder_addOns_def builder_teams_def
      builder_resourceProvider_def split: option.splits)

lemma truthy_cases:
  "truthy w = (\<exists>v. w = Some v \<and> v \<noteq> [])"
  by (cases w) (simp_all add: truthy_def)

text \<open>The constructor returns exactly when none of the calls it makes throws.\<close>

lemma CdkProjectsStack_falsy:
  assumes "\<not> truthy (props_vpcId props)"
  shows "CdkProjectsStack lib id' props =
     (if lib (Call_super id' props) then Inl (Thrown (Call_super id' props) initial)
      else
        let st1 = (if props_createNewVpc props \<noteq> Some False
                   then console_log ''Creating new VPC for EKS cluster''
                          (Tags_add ''Name'' ''Maas'' initial)
                   else Tags_add ''Name'' ''Maas'' initial);
            c = Call_build (id' @ ''-eks-cluster'') (blueprint props None)
        in if lib c then Inl (Thrown c st1)
           else Inr (builder_build (id' @ ''-eks-cluster'') (blueprint props None) st1))"
  using assms
  by (simp add: CdkProjectsStack_def vpc_configuration_def call_def Let_def)

lemma CdkProjectsStack_truthy:
  assumes "props_vpcId props = Some v" and "v \<noteq> []"
  shows "CdkProjectsStack lib id' props =
     (let vp = Vpc_fromLookup ''ExistingVpcForEc2'' v;
          st0 = console_log (''Using existing VPC: '' @ v) (Tags_add ''Name'' ''Maas'' initial);
          l = Call_fromLookup (props_env_account props) (props_env_region props)
                ''ExistingVpcForEc2'' v;
          st1 = new_construct (VpcLookup ''ExistingVpcForEc2'' v) st0;
          b = Call_build (id' @ ''-eks-cluster'') (blueprint props (Some (VpcProvider v)));
          st2 = builder_build (id' @ ''-eks-cluster'')
                  (blueprint props (Some (VpcProvider v))) st1
      in if lib (Call_super id' props) then Inl (Thrown (Call_super id' props) initial)
         else if lib l then Inl (Thrown l st0)
         else if lib b then Inl (Thrown b st1)
         else private_instance lib vp st2)"
  using assms
  by (simp add: CdkProjectsStack_def vpc_configuration_def call_def Let_def truthy_def)

lemma private_instance_eq:
  "private_instance lib v st =
     (let st1 = new_construct (EKSInstanceSg v) st;
          st2 = new_construct EKSInstanceRole st1;
          st3 = addManagedPolicy ''EKSInstanceRole''
                  (fromAwsManagedPolicyName ''AmazonSSMManagedInstanceCore'') st2
      in if lib (Call_new (EKSInstanceSg v)) then Inl (Thrown (Call_new (EKSInstanceSg v)) st)
         else if lib (Call_new EKSInstanceRole) then Inl (Thrown (Call_new EKSInstanceRole) st1)
         else if lib (Call_new (EKSInstance v)) then Inl (Thrown (Call_new (EKSInstance v)) st3)
         else Inr (new_construct (EKSInstance v) st3))"
  by (simp add: private_instance_def call_def Let_def)

lemma constructs_falsy:
  assumes "\<not> truthy (props_vpcId props)"
  shows "constructs (effects (CdkProjectsStack lib id' props)) = []"
  by (simp add: CdkProjectsStack_falsy [OF assms] Let_def initial_def Tags_add_def
      console_log_def builder_build_def)

lemma constructs_returned:
  assumes "returned (CdkProjectsStack lib id' props)"
  shows "constructs (effects (CdkProjectsStack lib id' props)) = constructs_of props"
proof (cases "truthy (props_vpcId props)")
  case True
  then obtain v where v: "props_vpcId props = Some v" "v \<noteq> []"
    by (auto simp: truthy_cases)
  from assms show ?thesis
    by (simp add: CdkProjectsStack_truthy [OF v] private_instance_eq Let_def v
        constructs_of_def initial_def Tags_add_def console_log_def builder_build_def
        new_construct_def addManagedPolicy_def EKSInstanceSg_def EKSInstanceRole_def
        EKSInstance_def split: if_splits)
next
  case False
  then have "constructs_of props = []"
    by (auto simp: constructs_of_def truthy_def split: option.splits)
  with constructs_falsy [OF False] show ?thesis by simp
qed

lemma built_effects:
  "built (effects (CdkProjectsStack lib id' props)) = []
   \<or> built (effects (CdkProjectsStack lib id' props)) =
       [(id' @ ''-eks-cluster'', blueprint props (vpc_provider_of props))]"
proof (cases "truthy (props_vpcId props)")
  case True
  then obtain v where v: "props_vpcId props = Some v" "v \<noteq> []"
    by (auto simp: truthy_cases)
  show ?thesis
    by (simp add: CdkProjectsStack_truthy [OF v] private_instance_eq Let_def v
        vpc_provider_of_def initial_def Tags_add_def console_log_def builder_build_def
        new_construct_def addManagedPolicy_def)
next
  case False
  then have "vpc_provider_of props = None"
    by (auto simp: vpc_provider_of_def truthy_def split: option.splits)
  then show ?thesis
    by (simp add: CdkProjectsStack_falsy [OF False] Let_def initial_def Tags_add_def
        console_log_def builder_build_def)
qed

lemma built_returned:
  assumes "returned (CdkProjectsStack lib id' props)"
  shows "built (effects (CdkProjectsStack lib id' props)) =
       [(id' @ ''-eks-cluster'', blueprint props (vpc_provider_of props))]"
proof (cases "truthy (props_vpcId props)")
  case True
  then obtain v where v: "props_vpcId props = Some v" "v \<noteq> []"
    by (auto simp: truthy_cases)
  from assms show ?thesis
    by (simp add: CdkProjectsStack_truthy [OF v] private_instance_eq Let_def v
        vpc_provider_of_def initial_def Tags_add_def console_log_def builder_build_def
        new_construct_def addManagedPolicy_def split: if_splits)
next
  case False
  then have "vpc_provider_of props = None"
    by (auto simp: vpc_provider_of_def truthy_def split: option.splits)
  with assms show ?thesis
    by (simp add: CdkProjectsStack_falsy [OF False] Let_def initial_def Tags_add_def
        console_log_def builder_build_def split: if_splits)
qed

lemma tags_returned:
  assumes "returned (CdkProjectsStack lib id' props)"
  shows "tags (effects (CdkProjectsStack lib id' props)) = [(''Name'', ''Maas'')]"
proof (cases "truthy (props_vpcId props)")
  case True
  then obtain v where v: "props_vpcId props = Some v" "v \<noteq> []"
    by (auto simp: truthy_cases)
  from assms show ?thesis
    by (simp add: CdkProjectsStack_truthy [OF v] private_instance_eq Let_def v
        initial_def Tags_add_def console_log_def builder_build_def
        new_construct_def addManagedPolicy_def split: if_splits)
next
  case False
  with assms show ?thesis
    by (simp add: CdkProjectsStack_falsy [OF False] Let_def initial_def Tags_add_def
        console_log_def builder_build_def split: if_splits)
qed

text \<open>With the failures of \<open>aws_cdk\<close> the constructor returns exactly on these inputs.\<close>

lemma returned_aws_cdk:
  "returned (CdkProjectsStack aws_cdk id' props) =
     (valid_stack_name id' \<and> length id' \<le> 51
      \<and> (truthy (props_vpcId props)
           \<longrightarrow> props_env_account props \<noteq> None \<and> props_env_region props \<noteq> None))"
proof (cases "truthy (props_vpcId props)")
  case True
  then obtain v where v: "props_vpcId props = Some v" "v \<noteq> []"
    by (auto simp: truthy_cases)
  from True show ?thesis
    by (auto simp add: CdkProjectsStack_truthy [OF v] private_instance_eq Let_def)
next
  case False
  then show ?thesis
    by (auto simp add: CdkProjectsStack_falsy [OF False] Let_def)
qed

lemma valid_CdkProjectsStack: "valid_stack_name ''CdkProjectsStack''"
  by (simp add: valid_stack_name_def letters_def digits_def)

lemma returned_fixed: "returned (cdk_projects_fixed aws_cdk)"
  by (simp add: cdk_projects_fixed_def returned_aws_cdk valid_CdkProjectsStack
      props_env_account_def props_env_region_def)

lemma returned_env:
  "returned (cdk_projects_env aws_cdk ACC_ID VPC_ID) =
     (truthy VPC_ID \<longrightarrow> ACC_ID \<noteq> None)"
  by (simp add: cdk_projects_env_def returned_aws_cdk valid_CdkProjectsStack
      props_env_account_def props_env_region_def props_vpcId_def)

lemma thrown_env:
  "cdk_projects_env aws_cdk None (Some ''vpc-00e9c2080fc3a870f'') =
     Inl (Thrown
       (Call_fromLookup None (Some ''us-east-1'') ''ExistingVpcForEc2'' ''vpc-00e9c2080fc3a870f'')
       \<lparr>tags = [(''Name'', ''Maas'')],
        console = [''Using existing VPC: vpc-00e9c2080fc3a870f''],
        constructs = [], built = []\<rparr>)"
proof -
  have v: "props_vpcId
      (Some \<lparr>env = Some \<lparr>account = None, region = Some ''us-east-1''\<rparr>,
             vpcId = Some ''vpc-00e9c2080fc3a870f'', createNewVpc = None\<rparr>)
      = Some ''vpc-00e9c2080fc3a870f''" "''vpc-00e9c2080fc3a870f'' \<noteq> []"
    by (simp_all add: props_vpcId_def)
  show ?thesis
    by (simp add: cdk_projects_env_def CdkProjectsStack_truthy [OF v] Let_def
        valid_CdkProjectsStack props_env_account_def props_env_region_def
        initial_def Tags_add_def console_log_def)
qed

subsection \<open>Node-group sizes\<close>

text \<open>
  Claim C2. Whatever the library does, the stack id and the properties, every node group
  that the constructor hands over in a built blueprint, whether it then returns or throws,
  is the group \<^verbatim>\<open>mng1\<close> with \<open>minSize = 1\<close>, \<open>maxSize = 5\<close>, \<open>desiredSize = 2\<close>,
  and satisfies \<open>minSize \<le> desiredSize \<le> maxSize\<close>. When the constructor returns, it has
  handed over exactly this one group. Node groups are not an input of the program, so these
  are all the node groups the program ever accepts.
\<close>

theorem node_group_sizes_ok:
  "(\<forall>ng \<in> set (node_groups (effects (CdkProjectsStack lib id' props))).
      ng = \<lparr>id_mng = ''mng1'', instanceTypes = [InstanceType_of T3 MEDIUM],
             minSize = 1, maxSize = 5, desiredSize = 2,
             nodeGroupSubnets = PRIVATE_WITH_EGRESS\<rparr>
      \<and> minSize ng \<le> desiredSize ng \<and> desiredSize ng \<le> maxSize ng)
   \<and> (returned (CdkProjectsStack lib id' props) \<longrightarrow>
        node_groups (effects (CdkProjectsStack lib id' props)) =
          [\<lparr>id_mng = ''mng1'', instanceTypes = [InstanceType_of T3 MEDIUM],
            minSize = 1, maxSize = 5, desiredSize = 2,
            nodeGroupSubnets = PRIVATE_WITH_EGRESS\<rparr>])"
proof -
  let ?r = "CdkProjectsStack lib id' props"
  have lit: "\<lparr>id_mng = ''mng1'', instanceTypes = [InstanceType_of T3 MEDIUM],
              minSize = 1, maxSize = 5, desiredSize = 2,
              nodeGroupSubnets = PRIVATE_WITH_EGRESS\<rparr> = mng1"
    by (simp add: mng1_def)
  have sizes: "minSize mng1 \<le> desiredSize mng1" "desiredSize mng1 \<le> maxSize mng1"
    by (simp_all add: mng1_def)
  have one: "node_groups st = [mng1]"
    if "built st = [(id' @ ''-eks-cluster'', blueprint props (vpc_provider_of props))]" for st
    using that by (simp add: node_groups_def blueprint_eq cluster_provider_def)
  have none: "node_groups st = []" if "built st = []" for st
    using that by (simp add: node_groups_def)
  have "set (node_groups (effects ?r)) \<subseteq> {mng1}"
    using built_effects [of lib id' props] one [of "effects ?r"] none [of "effects ?r"]
    by (elim disjE) simp_all
  moreover have "node_groups (effects ?r) = [mng1]" if "returned ?r"
    using one [OF built_returned [OF that]] .
  ultimately show ?thesis
    unfolding lit using sizes by blast
qed

theorem node_group_sizes_ok_witness:
  "returned (cdk_projects_fixed aws_cdk)
   \<and> mng1 \<in> set (node_groups (effects (cdk_projects_fixed aws_cdk)))
   \<and> node_groups (effects (cdk_projects_fixed aws_cdk)) = [mng1]
   \<and> minSize mng1 = 1 \<and> desiredSize mng1 = 2 \<and> maxSize mng1 = 5
   \<and> minSize mng1 \<le> desiredSize mng1 \<and> desiredSize mng1 \<le> maxSize mng1"
proof -
  have r: "returned (CdkProjectsStack aws_cdk ''CdkProjectsStack''
      (Some \<lparr>env = Some \<lparr>account = Some ''471727841202'', region = Some ''us-east-1''\<rparr>,
             vpcId = Some ''vpc-00e9c2080fc3a870f'', createNewVpc = None\<rparr>))"
    using returned_fixed by (simp add: cdk_projects_fixed_def)
  have "node_groups (effects (cdk_projects_fixed aws_cdk)) = [mng1]"
    unfolding cdk_projects_fixed_def mng1_def
    using node_group_sizes_ok [of aws_cdk "''CdkProjectsStack''"
      "Some \<lparr>env = Some \<lparr>account = Some ''471727841202'', region = Some ''us-east-1''\<rparr>,
             vpcId = Some ''vpc-00e9c2080fc3a870f'', createNewVpc = None\<rparr>"] r
    by blast
  then show ?thesis
    using returned_fixed by (simp add: mng1_def)
qed

subsection \<open>The private EC2 instance\<close>

text \<open>
  Claim C9 as stated says that the instance, its security group and its role exist if and
  only if \<^verbatim>\<open>props.vpcId\<close> is defined. It fails in two ways, both with the second
  caller, which passes \<^verbatim>\<open>process.env.ACC_ID\<close> and \<^verbatim>\<open>process.env.VPC_ID\<close>.
  \<^item> The guard is \<^verbatim>\<open>if (props?.vpcId)\<close>, a truthiness test: with the variable
    \<^verbatim>\<open>VPC_ID\<close> set to the empty string the VPC id is defined, the constructor
    returns, and the stack has no instance, no security group and no role.
  \<^item> With \<^verbatim>\<open>VPC_ID\<close> set to a VPC id and \<^verbatim>\<open>ACC_ID\<close> unset the stack has no
    account, \<^verbatim>\<open>Vpc.fromLookup\<close> throws, and none of the three is created.
\<close>

theorem ec2_iff_vpcId_defined_counterexample:
  "props_vpcId (Some \<lparr>env = Some \<lparr>account = Some ''471727841202'', region = Some ''us-east-1''\<rparr>,
                      vpcId = Some '''', createNewVpc = None\<rparr>) \<noteq> None
   \<and> returned (cdk_projects_env aws_cdk (Some ''471727841202'') (Some ''''))
   \<and> \<not> has_Instance (effects (cdk_projects_env aws_cdk (Some ''471727841202'') (Some '''')))
   \<and> \<not> has_SecurityGroup (effects (cdk_projects_env aws_cdk (Some ''471727841202'') (Some '''')))
   \<and> \<not> has_Role (effects (cdk_projects_env aws_cdk (Some ''471727841202'') (Some '''')))
   \<and> props_vpcId (Some \<lparr>env = Some \<lparr>account = None, region = Some ''us-east-1''\<rparr>,
                        vpcId = Some ''vpc-00e9c2080fc3a870f'', createNewVpc = None\<rparr>) \<noteq> None
   \<and> \<not> returned (cdk_projects_env aws_cdk None (Some ''vpc-00e9c2080fc3a870f''))
   \<and> \<not> has_Instance (effects (cdk_projects_env aws_cdk None (Some ''vpc-00e9c2080fc3a870f'')))
   \<and> \<not> has_SecurityGroup (effects (cdk_projects_env aws_cdk None (Some ''vpc-00e9c2080fc3a870f'')))
   \<and> \<not> has_Role (effects (cdk_projects_env aws_cdk None (Some ''vpc-00e9c2080fc3a870f'')))"
proof -
  have "\<not> truthy (props_vpcId
      (Some \<lparr>env = Some \<lparr>account = Some ''471727841202'', region = Some ''us-east-1''\<rparr>,
             vpcId = Some '''', createNewVpc = None\<rparr>))"
    by (simp add: truthy_def props_vpcId_def)
  then have "constructs (effects (cdk_projects_env aws_cdk (Some ''471727841202'') (Some ''''))) = []"
    unfolding cdk_projects_env_def by (rule constructs_falsy)
  then show ?thesis
    by (simp add: returned_env thrown_env truthy_def props_vpcId_def
        has_Instance_def has_SecurityGroup_def has_Role_def)
qed

text \<open>
  Claim C9, amended. Whatever the library does: when the constructor returns, each of the
  security group, the role and the instance has been created if and only if
  \<^verbatim>\<open>props.vpcId\<close> is a non-empty string, and the constructs of the stack are then the
  VPC lookup and these three; when \<^verbatim>\<open>props.vpcId\<close> is undefined or empty,
  whatever \<^verbatim>\<open>createNewVpc\<close> is, no construct is created, whether the constructor
  returns or throws.
\<close>

theorem ec2_iff_vpcId_truthy:
  "(returned (CdkProjectsStack lib id' props) \<longrightarrow>
      has_SecurityGroup (effects (CdkProjectsStack lib id' props)) = truthy (props_vpcId props)
      \<and> has_Role (effects (CdkProjectsStack lib id' props)) = truthy (props_vpcId props)
      \<and> has_Instance (effects (CdkProjectsStack lib id' props)) = truthy (props_vpcId props)
      \<and> map construct_id (constructs (effects (CdkProjectsStack lib id' props))) =
          (if truthy (props_vpcId props)
           then [''ExistingVpcForEc2'', ''EKSInstanceSg'', ''EKSInstanceRole'', ''EKSInstance'']
           else []))
   \<and> (\<not> truthy (props_vpcId props) \<longrightarrow>
        constructs (effects (CdkProjectsStack lib id' props)) = [])"
proof -
  have "constructs_of props = [] \<and> \<not> list_ex is_SecurityGroup (constructs_of props)
        \<and> \<not> list_ex is_Role (constructs_of props) \<and> \<not> list_ex is_Instance (constructs_of props)"
    if "\<not> truthy (props_vpcId props)"
    using that by (auto simp: constructs_of_def truthy_def split: option.splits)
  moreover have "list_ex is_SecurityGroup (constructs_of props)
        \<and> list_ex is_Role (constructs_of props) \<and> list_ex is_Instance (constructs_of props)
        \<and> map construct_id (constructs_of props) =
            [''ExistingVpcForEc2'', ''EKSInstanceSg'', ''EKSInstanceRole'', ''EKSInstance'']"
    if "truthy (props_vpcId props)"
    using that by (auto simp: constructs_of_def truthy_def split: option.splits)
  ultimately show ?thesis
    using constructs_falsy [of props lib id']
    by (cases "truthy (props_vpcId props)")
       (simp_all add: has_SecurityGroup_def has_Role_def has_Instance_def constructs_returned)
qed

theorem ec2_iff_vpcId_truthy_witness:
  "returned (cdk_projects_fixed aws_cdk)
   \<and> has_SecurityGroup (effects (cdk_projects_fixed aws_cdk))
   \<and> has_Role (effects (cdk_projects_fixed aws_cdk))
   \<and> has_Instance (effects (cdk_projects_fixed aws_cdk))
   \<and> \<not> truthy (props_vpcId (Some \<lparr>env = None, vpcId = None, createNewVpc = Some True\<rparr>))
   \<and> constructs (effects (CdkProjectsStack aws_cdk ''CdkProjectsStack''
        (Some \<lparr>env = None, vpcId = None, createNewVpc = Some True\<rparr>))) = []"
  using ec2_iff_vpcId_truthy [of aws_cdk "''CdkProjectsStack''"
      "Some \<lparr>env = Some \<lparr>account = Some ''471727841202'', region = Some ''us-east-1''\<rparr>,
             vpcId = Some ''vpc-00e9c2080fc3a870f'', createNewVpc = None\<rparr>"]
    ec2_iff_vpcId_truthy [of aws_cdk "''CdkProjectsStack''"
      "Some \<lparr>env = None, vpcId = None, createNewVpc = Some True\<rparr>"]
    returned_fixed
  by (simp add: cdk_projects_fixed_def props_vpcId_def truthy_def)

subsection \<open>The cluster configuration does not depend on the properties\<close>

text \<open>
  Claim C10 as stated says that the cluster is configured in the same way for every
  properties value, and that \<^verbatim>\<open>vpcId\<close> changes only the VPC resource provider and
  the extra instance. With the second caller and \<^verbatim>\<open>ACC_ID\<close> unset the stack has no
  account: when \<^verbatim>\<open>VPC_ID\<close> holds a VPC id, \<^verbatim>\<open>Vpc.fromLookup\<close> throws before
  the builder chain and no blueprint is built; when \<^verbatim>\<open>VPC_ID\<close> is unset too, the
  constructor returns and has built the cluster. So \<^verbatim>\<open>vpcId\<close> can decide whether a
  cluster is configured at all.
\<close>

theorem cluster_configuration_fixed_counterexample:
  "\<not> returned (cdk_projects_env aws_cdk None (Some ''vpc-00e9c2080fc3a870f''))
   \<and> built (effects (cdk_projects_env aws_cdk None (Some ''vpc-00e9c2080fc3a870f''))) = []
   \<and> returned (cdk_projects_env aws_cdk None None)
   \<and> map (\<lambda>ib. (fst ib, cluster_configuration (snd ib)))
       (built (effects (cdk_projects_env aws_cdk None None))) =
       [(''CdkProjectsStack-eks-cluster'',
         Some cluster_provider,
         [CoreDnsAddOn, KubeProxyAddOn, VpcCniAddOn, MetricsServerAddOn,
          ClusterAutoScalerAddOn, AwsLoadBalancerControllerAddOn, ContainerInsightsAddOn],
         [])]"
proof -
  have r: "returned (CdkProjectsStack aws_cdk ''CdkProjectsStack''
      (Some \<lparr>env = Some \<lparr>account = None, region = Some ''us-east-1''\<rparr>,
             vpcId = None, createNewVpc = None\<rparr>))"
    by (simp add: returned_aws_cdk valid_CdkProjectsStack props_vpcId_def truthy_def)
  have "map (\<lambda>ib. (fst ib, cluster_configuration (snd ib)))
       (built (effects (cdk_projects_env aws_cdk None None))) =
       [(''CdkProjectsStack-eks-cluster'',
         Some cluster_provider,
         [CoreDnsAddOn, KubeProxyAddOn, VpcCniAddOn, MetricsServerAddOn,
          ClusterAutoScalerAddOn, AwsLoadBalancerControllerAddOn, ContainerInsightsAddOn],
         [])]"
    unfolding cdk_projects_env_def
    by (simp add: built_returned [OF r] blueprint_eq cluster_configuration_def)
  then show ?thesis
    by (simp add: thrown_env returned_env truthy_def)
qed

text \<open>
  Claim C10, amended. Whatever the library does: every blueprint the constructor builds,
  whether it then returns or throws, is built under the id \<^verbatim>\<open>id + "-eks-cluster"\<close>
  with a cluster provider of Kubernetes version 1.25, a private endpoint and the single
  managed node group \<^verbatim>\<open>mng1\<close> (t3.medium, sizes 1, 5 and 2, private subnets with
  egress), with the same seven add-ons and with an empty team list. When the constructor
  returns it has built exactly one blueprint, whose resource providers are the VPC provider
  of \<^verbatim>\<open>props.vpcId\<close> when that is a non-empty string and none otherwise. Two
  properties values with the same account and region with both of which the constructor
  returns, differing in \<^verbatim>\<open>vpcId\<close> and \<^verbatim>\<open>createNewVpc\<close> in any way, give results
  that agree on everything except the resource providers and the constructs of the extra
  instance.
\<close>

theorem cluster_configuration_fixed:
  "(\<forall>ib \<in> set (built (effects (CdkProjectsStack lib id' p))).
      fst ib = id' @ ''-eks-cluster''
      \<and> cluster_configuration (snd ib) =
          (Some (GenericClusterProvider
             \<lparr>version = V1_25, endpointAccess = PRIVATE,
              managedNodeGroups =
                [\<lparr>id_mng = ''mng1'', instanceTypes = [InstanceType_of T3 MEDIUM],
                  minSize = 1, maxSize = 5, desiredSize = 2,
                  nodeGroupSubnets = PRIVATE_WITH_EGRESS\<rparr>]\<rparr>),
           [CoreDnsAddOn, KubeProxyAddOn, VpcCniAddOn, MetricsServerAddOn,
            ClusterAutoScalerAddOn, AwsLoadBalancerControllerAddOn, ContainerInsightsAddOn],
           []))
   \<and> (returned (CdkProjectsStack lib id' p) \<longrightarrow>
        length (built (effects (CdkProjectsStack lib id' p))) = 1
        \<and> map (bp_resourceProviders \<circ> snd) (built (effects (CdkProjectsStack lib id' p))) =
            [case props_vpcId p of
               None \<Rightarrow> []
             | Some v \<Rightarrow> if v = [] then [] else [(Vpc, VpcProvider v)]])
   \<and> (returned (CdkProjectsStack lib id' p) \<and> returned (CdkProjectsStack lib id' q)
        \<and> props_env_account p = props_env_account q
        \<and> props_env_region p = props_env_region q
        \<longrightarrow> cluster_part (effects (CdkProjectsStack lib id' p)) =
              cluster_part (effects (CdkProjectsStack lib id' q)))"
proof -
  have 1: "\<forall>ib \<in> set (built (effects (CdkProjectsStack lib id' p))).
      fst ib = id' @ ''-eks-cluster''
      \<and> cluster_configuration (snd ib) =
          (Some cluster_provider,
           [CoreDnsAddOn, KubeProxyAddOn, VpcCniAddOn, MetricsServerAddOn,
            ClusterAutoScalerAddOn, AwsLoadBalancerControllerAddOn, ContainerInsightsAddOn],
           [])"
    using built_effects [of lib id' p]
    by (auto simp: blueprint_eq cluster_configuration_def)
  have 2: "length (built (effects (CdkProjectsStack lib id' p))) = 1
        \<and> map (bp_resourceProviders \<circ> snd) (built (effects (CdkProjectsStack lib id' p))) =
            [case props_vpcId p of
               None \<Rightarrow> []
             | Some v \<Rightarrow> if v = [] then [] else [(Vpc, VpcProvider v)]]"
    if "returned (CdkProjectsStack lib id' p)"
    using that
    by (simp add: built_returned blueprint_eq vpc_provider_of_def split: option.splits)
  have 3: "cluster_part (effects (CdkProjectsStack lib id' p)) =
           cluster_part (effects (CdkProjectsStack lib id' q))"
    if "returned (CdkProjectsStack lib id' p)" "returned (CdkProjectsStack lib id' q)"
       "props_env_account p = props_env_account q" "props_env_region p = props_env_region q"
    using that
    by (simp add: cluster_part_def built_returned tags_returned constructs_returned
        blueprint_eq constructs_of_def split: option.splits)
  from 1 2 3 show ?thesis
    by (simp add: cluster_provider_def mng1_def)
qed

theorem cluster_configuration_fixed_witness:
  "returned (cdk_projects_fixed aws_cdk)
   \<and> returned (CdkProjectsStack aws_cdk ''CdkProjectsStack''
       (Some \<lparr>env = Some \<lparr>account = Some ''471727841202'', region = Some ''us-east-1''\<rparr>,
              vpcId = None, createNewVpc = Some False\<rparr>))
   \<and> props_env_account
       (Some \<lparr>env = Some \<lparr>account = Some ''471727841202'', region = Some ''us-east-1''\<rparr>,
              vpcId = Some ''vpc-00e9c2080fc3a870f'', createNewVpc = None\<rparr>)
     = props_env_account
       (Some \<lparr>env = Some \<lparr>account = Some ''471727841202'', region = Some ''us-east-1''\<rparr>,
              vpcId = None, createNewVpc = Some False\<rparr>)
   \<and> props_env_region
       (Some \<lparr>env = Some \<lparr>account = Some ''471727841202'', region = Some ''us-east-1''\<rparr>,
              vpcId = Some ''vpc-00e9c2080fc3a870f'', createNewVpc = None\<rparr>)
     = props_env_region
       (Some \<lparr>env = Some \<lparr>account = Some ''471727841202'', region = Some ''us-east-1''\<rparr>,
              vpcId = None, createNewVpc = Some False\<rparr>)
   \<and> cluster_part (effects (cdk_projects_fixed aws_cdk))
     = cluster_part (effects (CdkProjectsStack aws_cdk ''CdkProjectsStack''
         (Some \<lparr>env = Some \<lparr>account = Some ''471727841202'', region = Some ''us-east-1''\<rparr>,
                vpcId = None, createNewVpc = Some False\<rparr>)))
   \<and> length (built (effects (cdk_projects_fixed aws_cdk))) = 1
   \<and> map (bp_resourceProviders \<circ> snd) (built (effects (cdk_projects_fixed aws_cdk)))
     = [[(Vpc, VpcProvider ''vpc-00e9c2080fc3a870f'')]]"
proof -
  have "returned (CdkProjectsStack aws_cdk ''CdkProjectsStack''
       (Some \<lparr>env = Some \<lparr>account = Some ''471727841202'', region = Some ''us-east-1''\<rparr>,
              vpcId = None, createNewVpc = Some False\<rparr>))"
    by (simp add: returned_aws_cdk valid_CdkProjectsStack props_vpcId_def truthy_def)
  then show ?thesis
    using cluster_configuration_fixed [of aws_cdk "''CdkProjectsStack''"
      "Some \<lparr>env = Some \<lparr>account = Some ''471727841202'', region = Some ''us-east-1''\<rparr>,
             vpcId = Some ''vpc-00e9c2080fc3a870f'', createNewVpc = None\<rparr>"
      "Some \<lparr>env = Some \<lparr>account = Some ''471727841202'', region = Some ''us-east-1''\<rparr>,
             vpcId = None, createNewVpc = Some False\<rparr>"]
      returned_fixed
    by (simp add: cdk_projects_fixed_def props_env_account_def props_env_region_def
        props_vpcId_def)
qed

end
